theory Spec2Isabelle
  imports Main "HOL-Library.Word"
begin

section \<open>Values exchanged with the analysis workflow\<close>

text \<open>
  The application (app.py) is a Streamlit script: every user interaction runs the script
  from top to bottom against the session's \<open>st.session_state\<close>. The model below follows
  the script block by block. Calls into the UI library and the HTTP library are recorded
  as a trace of events; the answer of the HTTP library is an input of the model.

  JSON values as Python sees them after \<open>response.json()\<close>. Numbers are integers here;
  floating-point numbers are not modelled. An object is the list of its items in
  insertion order. Strings are byte strings (UTF-8).
\<close>

datatype json =
  JNull
  | JBool bool
  | JInt int
  | JStr string
  | JArr "json list"
  | JObj "(string \<times> json) list"

text \<open>Python's truth value of an object, as tested by \<open>if results:\<close> (\<open>None\<close> is \<open>JNull\<close>).\<close>

fun truthy :: "json \<Rightarrow> bool" where
  "truthy JNull = False"
| "truthy (JBool b) = b"
| "truthy (JInt i) = (i \<noteq> 0)"
| "truthy (JStr s) = (s \<noteq> [])"
| "truthy (JArr xs) = (xs \<noteq> [])"
| "truthy (JObj kvs) = (kvs \<noteq> [])"

text \<open>
  Exceptions that the script does not catch: they end the current script run.
  \<open>UnboundLocalError v\<close>: the local variable \<open>v\<close> is read before it was assigned.
  \<open>AttributeError t a\<close>: a value of Python type \<open>t\<close> has no attribute \<open>a\<close>.
\<close>

datatype py_error =
  UnboundLocalError string
  | AttributeError string string

fun type_name :: "json \<Rightarrow> string" where
  "type_name JNull = ''NoneType''"
| "type_name (JBool b) = ''bool''"
| "type_name (JInt i) = ''int''"
| "type_name (JStr s) = ''str''"
| "type_name (JArr xs) = ''list''"
| "type_name (JObj kvs) = ''dict''"

text \<open>\<open>v.get(k, d)\<close>: defined on a dict only; on every other value the attribute is missing.\<close>

fun py_get :: "json \<Rightarrow> string \<Rightarrow> json \<Rightarrow> py_error + json" where
  "py_get (JObj kvs) k d = Inr (case map_of kvs k of None \<Rightarrow> d | Some v \<Rightarrow> v)"
| "py_get v k d = Inl (AttributeError (type_name v) ''get'')"

text \<open>\<open>results.get('data', {}).get(k, d)\<close>, the accessor the upload handler uses twice.\<close>

definition data_get :: "json \<Rightarrow> string \<Rightarrow> json \<Rightarrow> py_error + json" where
  "data_get results k d =
     (case py_get results ''data'' (JObj []) of
        Inl err \<Rightarrow> Inl err
      | Inr data \<Rightarrow> py_get data k d)"

text \<open>
  Formatting a value inside an f-string. A \<open>str\<close> is inserted as it is; for any other
  value Python inserts its \<open>str()\<close>, which is taken as the parameter \<open>str_of\<close>.
\<close>

definition format_value :: "(json \<Rightarrow> string) \<Rightarrow> json \<Rightarrow> string" where
  "format_value str_of v = (case v of JStr s \<Rightarrow> s | _ \<Rightarrow> str_of v)"

section \<open>Session state\<close>

datatype role = User | Assistant

text \<open>The content of a message is a string, or a dictionary/list shown with \<open>st.json\<close>.\<close>

datatype content = Text string | Structured json

record message =
  role :: role
  content :: content

text \<open>
  \<open>st.session_state\<close>: the key \<open>messages\<close> and the key \<open>last_processed_file\<close>, which is
  absent (\<open>None\<close>) until the first assignment.
\<close>

record session_state =
  messages :: "message list"
  last_processed_file :: "string option"

definition greeting :: message where
  "greeting = \<lparr>role = Assistant, content = Text ''Hello! Please upload your DRF file to begin.''\<rparr>"

definition initial_state :: session_state where
  "initial_state = \<lparr>messages = [greeting], last_processed_file = None\<rparr>"

text \<open>Lines 48-49: the chat history is created only when the session has none.\<close>

fun initialize :: "session_state option \<Rightarrow> session_state" where
  "initialize None = initial_state"
| "initialize (Some s) = s"

section \<open>The outside world\<close>

text \<open>The file handed over by the uploader widget: its name, its bytes, its MIME type.\<close>

record uploaded_file =
  name :: string
  getvalue :: "8 word list"
  type :: string

text \<open>
  A response object of the HTTP library:
  \<^item> \<open>status_code\<close>: the status of the final response;
  \<^item> \<open>http_error_text\<close>: the text of the HTTPError that the library builds from status,
    reason and URL when the status is an error status;
  \<^item> \<open>json_body\<close>: \<open>Inr j\<close> when \<open>response.json()\<close> returns \<open>j\<close>, \<open>Inl e\<close> when the
    body is not valid JSON and the call raises a JSONDecodeError with text \<open>e\<close>
    (a RequestException in the library versions Streamlit supports);
  \<^item> \<open>body_text\<close>: \<open>response.text\<close>.
\<close>

record response =
  status_code :: nat
  http_error_text :: string
  json_body :: "string + json"
  body_text :: string

text \<open>
  \<open>response.raise_for_status()\<close>: the library raises an HTTPError for a status from 400 to
  599 (client and server errors) and returns for every other status. \<open>Some e\<close> stands for
  the raised error with text \<open>e\<close>, \<open>None\<close> for the plain return.
\<close>

definition raise_for_status :: "response \<Rightarrow> string option" where
  "raise_for_status r =
     (if 400 \<le> status_code r \<and> status_code r < 600 then Some (http_error_text r) else None)"

text \<open>
  What \<open>requests.post\<close> does when it is called: it raises a RequestException with
  text \<open>e\<close> before any response exists (connection refused, timeout, ...), or it
  returns a response.
\<close>

datatype post_outcome = Raised string | Returned response

text \<open>The parts of a multipart/form-data body: field name, then (filename, bytes, MIME type).\<close>

type_synonym multipart = "(string \<times> string \<times> 8 word list \<times> string) list"

text \<open>
  The trace of one script run: the outbound HTTP call and the calls into the UI library
  (\<open>st.error\<close>, \<open>st.write\<close>, \<open>st.json\<close>, \<open>st.spinner\<close>, \<open>st.rerun\<close>). Layout containers
  (\<open>st.chat_message\<close>, \<open>st.expander\<close>) are not recorded.
\<close>

datatype event =
  HttpPost string multipart
  | StError string
  | StWrite string
  | StJson json
  | StSpinner string
  | StRerun

text \<open>How a block of the script ends: it falls through, it asks for a rerun, or it raises.\<close>

datatype control = Continue | Rerun | Crash py_error

section \<open>run_analysis (lines 24-42)\<close>

definition not_configured_text :: string where
  "not_configured_text = ''Webhook URL is not configured. Please set it in your Streamlit secrets.''"

definition contact_error_text :: "string \<Rightarrow> string" where
  "contact_error_text e = ''An error occurred while contacting the analysis workflow: '' @ e"

definition response_body_text :: "string \<Rightarrow> string" where
  "response_body_text t = ''Response Body: '' @ t"

text \<open>\<open>not MAKE_WEBHOOK_URL\<close>: the secret is missing or is the empty string.\<close>

fun configured :: "string option \<Rightarrow> bool" where
  "configured None = False"
| "configured (Some u) = (u \<noteq> [])"

text \<open>
  The \<open>except\<close> branch when a response exists: two \<open>st.error\<close> calls, then \<open>return None\<close>.
\<close>

definition report_failure :: "string \<Rightarrow> response \<Rightarrow> event list \<times> (py_error + json)" where
  "report_failure e r =
     ([StError (contact_error_text e), StError (response_body_text (body_text r))], Inr JNull)"

text \<open>
  The function returns the events it caused and either its return value (\<open>JNull\<close> for
  \<open>None\<close>) or the exception that left it. When \<open>requests.post\<close> itself raises, the
  variable \<open>response\<close> was never assigned: the first \<open>st.error\<close> is shown and reading
  \<open>response.text\<close> for the second one raises UnboundLocalError.
\<close>

definition run_analysis ::
  "string option \<Rightarrow> post_outcome \<Rightarrow> uploaded_file \<Rightarrow> event list \<times> (py_error + json)" where
  "run_analysis MAKE_WEBHOOK_URL outcome f =
     (case MAKE_WEBHOOK_URL of
        None \<Rightarrow> ([StError not_configured_text], Inr JNull)
      | Some url \<Rightarrow>
          if url = [] then ([StError not_configured_text], Inr JNull)
          else
            let files = [(''file'', (name f, getvalue f, type f))];
                call = HttpPost url files
            in (case outcome of
                  Raised e \<Rightarrow>
                    ([call, StError (contact_error_text e)], Inl (UnboundLocalError ''response''))
                | Returned r \<Rightarrow>
                    (case raise_for_status r of
                       Some e \<Rightarrow> (call # fst (report_failure e r), snd (report_failure e r))
                     | None \<Rightarrow>
                         (case json_body r of
                            Inl e \<Rightarrow> (call # fst (report_failure e r), snd (report_failure e r))
                          | Inr j \<Rightarrow> ([call], Inr j)))))"

section \<open>The upload handler (lines 67-97)\<close>

text \<open>The check mark U+2705 in UTF-8, and the apostrophe.\<close>

definition check_mark :: string where
  "check_mark = [CHR 0xE2, CHR 0x9C, CHR 0x85]"

definition apostrophe :: string where
  "apostrophe = [CHR 0x27]"

definition spinner_text :: "string \<Rightarrow> string" where
  "spinner_text n = ''Processing '' @ n @ ''... This may take a moment.''"

definition no_summary :: json where
  "no_summary = JStr ''No summary available.''"

definition no_lean :: json where
  "no_lean = JStr ''No lean data found.''"

definition summary_message :: "string \<Rightarrow> string" where
  "summary_message python_summary = check_mark @ '' Analysis Complete! '' @ python_summary @ ''.''"

definition lean_intro :: string where
  "lean_intro = ''Here is the processed '' @ apostrophe @ ''Lean'' @ apostrophe
     @ '' data ready for AI analysis:''"

definition append_message :: "message \<Rightarrow> session_state \<Rightarrow> session_state" where
  "append_message m s = s\<lparr>messages := messages s @ [m]\<rparr>"

text \<open>
  The block after \<open>if results:\<close> (lines 79-97), once \<open>results\<close> is known to be truthy.
  The summary is appended to the log; the lean data is only passed to \<open>st.json\<close>.
\<close>

definition show_results ::
  "(json \<Rightarrow> string) \<Rightarrow> uploaded_file \<Rightarrow> json \<Rightarrow> session_state
     \<Rightarrow> session_state \<times> event list \<times> control" where
  "show_results str_of f results s =
     (case data_get results ''python_summary'' no_summary of
        Inl err \<Rightarrow> (s, [], Crash err)
      | Inr python_summary \<Rightarrow>
          let s1 = append_message
                     \<lparr>role = Assistant,
                      content = Text (summary_message (format_value str_of python_summary))\<rparr> s
          in (case data_get results ''lean'' no_lean of
                Inl err \<Rightarrow> (s1, [StWrite lean_intro], Crash err)
              | Inr lean \<Rightarrow>
                  (s1\<lparr>last_processed_file := Some (name f)\<rparr>,
                   [StWrite lean_intro, StJson lean, StRerun], Rerun)))"

definition upload_handler ::
  "(json \<Rightarrow> string) \<Rightarrow> string option \<Rightarrow> post_outcome \<Rightarrow> uploaded_file option \<Rightarrow> session_state
     \<Rightarrow> session_state \<times> event list \<times> control" where
  "upload_handler str_of MAKE_WEBHOOK_URL outcome uploaded s =
     (case uploaded of
        None \<Rightarrow> (s, [], Continue)
      | Some f \<Rightarrow>
          if last_processed_file s = Some (name f) then (s, [], Continue)
          else
            let ra = run_analysis MAKE_WEBHOOK_URL outcome f;
                evs = StSpinner (spinner_text (name f)) # fst ra
            in (case snd ra of
                  Inl err \<Rightarrow> (s, evs, Crash err)
                | Inr results \<Rightarrow>
                    if truthy results then
                      (case show_results str_of f results s of
                         (s', evs', c) \<Rightarrow> (s', evs @ evs', c))
                    else (s, evs, Continue)))"

section \<open>The chat-input handler (lines 100-107)\<close>

definition not_implemented :: message where
  "not_implemented =
     \<lparr>role = Assistant, content = Text ''Follow-up questions are not yet implemented.''\<rparr>"

text \<open>
  \<open>if prompt := st.chat_input(...)\<close>: the widget yields \<open>None\<close> when nothing was sent;
  an empty text is falsy as well.
\<close>

definition chat_handler ::
  "string option \<Rightarrow> session_state \<Rightarrow> session_state \<times> event list \<times> control" where
  "chat_handler prompt s =
     (case prompt of
        None \<Rightarrow> (s, [], Continue)
      | Some t \<Rightarrow>
          if t = [] then (s, [], Continue)
          else
            (append_message not_implemented
               (append_message \<lparr>role = User, content = Text t\<rparr> s),
             [StWrite t, StRerun], Rerun))"

section \<open>One script run and a whole session\<close>

text \<open>
  The inputs of one script run: the secret read at line 21, the file in the uploader,
  what \<open>requests.post\<close> does if it is called in this run, and the text sent through the
  chat input.
\<close>

record run_input =
  MAKE_WEBHOOK_URL :: "string option"
  uploaded :: "uploaded_file option"
  endpoint :: post_outcome
  prompt :: "string option"

text \<open>Lines 52-58: a dictionary or list goes to \<open>st.json\<close>, a string to \<open>st.write\<close>.\<close>

fun render :: "message \<Rightarrow> event" where
  "render m = (case content m of Text t \<Rightarrow> StWrite t | Structured j \<Rightarrow> StJson j)"

text \<open>
  One run executes the blocks in order. \<open>st.rerun()\<close> and an uncaught exception both end
  the run at once, so the chat-input block is reached only when the upload block falls
  through. The session state outlives the run in every case.
\<close>

definition script_run ::
  "(json \<Rightarrow> string) \<Rightarrow> run_input \<Rightarrow> session_state option
     \<Rightarrow> session_state \<times> event list \<times> control" where
  "script_run str_of inp store =
     (let s0 = initialize store;
          shown = map render (messages s0)
      in (case upload_handler str_of (MAKE_WEBHOOK_URL inp) (endpoint inp) (uploaded inp) s0 of
            (s1, evs1, c1) \<Rightarrow>
              (case c1 of
                 Continue \<Rightarrow>
                   (case chat_handler (prompt inp) s1 of
                      (s2, evs2, c2) \<Rightarrow> (s2, shown @ evs1 @ evs2, c2))
               | Rerun \<Rightarrow> (s1, shown @ evs1, Rerun)
               | Crash err \<Rightarrow> (s1, shown @ evs1, Crash err))))"

text \<open>A session: the script runs once per input, each run on the state the last one left.\<close>

fun run_all ::
  "(json \<Rightarrow> string) \<Rightarrow> session_state option \<Rightarrow> run_input list \<Rightarrow> session_state option" where
  "run_all str_of store [] = store"
| "run_all str_of store (inp # inps) =
     run_all str_of (Some (fst (script_run str_of inp store))) inps"

text \<open>\<open>st.session_state.get("last_processed_file")\<close> on a store that may still be empty.\<close>

fun stored_last :: "session_state option \<Rightarrow> string option" where
  "stored_last None = None"
| "stored_last (Some s) = last_processed_file s"

section \<open>Vocabulary of the specification\<close>

text \<open>The outbound calls and the error reports in a trace.\<close>

fun is_post :: "event \<Rightarrow> bool" where
  "is_post (HttpPost u m) = True"
| "is_post e = False"

fun is_error :: "event \<Rightarrow> bool" where
  "is_error (StError t) = True"
| "is_error e = False"

definition outbound_calls :: "event list \<Rightarrow> event list" where
  "outbound_calls evs = filter is_post evs"

definition error_reports :: "event list \<Rightarrow> event list" where
  "error_reports evs = filter is_error evs"

text \<open>The single part named \<open>file\<close> that a submission of \<open>f\<close> carries.\<close>

definition file_part :: "uploaded_file \<Rightarrow> multipart" where
  "file_part f = [(''file'', (name f, getvalue f, type f))]"

text \<open>
  A transport failure in the words of the specification: a network error or timeout
  (\<open>requests.post\<close> raised), or a response whose status is not 2xx.
\<close>

fun transport_failure :: "post_outcome \<Rightarrow> bool" where
  "transport_failure (Raised e) = True"
| "transport_failure (Returned r) = (status_code r < 200 \<or> 300 \<le> status_code r)"

text \<open>
  The narrower condition: \<open>requests.post\<close> raised, or the response has an error status,
  400 to 599.
\<close>

fun error_outcome :: "post_outcome \<Rightarrow> bool" where
  "error_outcome (Raised e) = True"
| "error_outcome (Returned r) = (400 \<le> status_code r \<and> status_code r < 600)"

text \<open>The JSON body of a response without error status, when the body is valid JSON.\<close>

fun answered :: "post_outcome \<Rightarrow> json option" where
  "answered (Raised e) = None"
| "answered (Returned r) =
     (case raise_for_status r of
        Some e \<Rightarrow> None
      | None \<Rightarrow> (case json_body r of Inl e \<Rightarrow> None | Inr j \<Rightarrow> Some j))"

text \<open>
  The items of \<open>data\<close> in a JSON object: those of the \<open>data\<close> field when it is an object,
  none when the object has no \<open>data\<close> field. Undefined when \<open>data\<close> is anything else.
\<close>

fun data_items :: "(string \<times> json) list \<Rightarrow> (string \<times> json) list option" where
  "data_items kvs =
     (case map_of kvs ''data'' of
        None \<Rightarrow> Some []
      | Some (JObj d) \<Rightarrow> Some d
      | Some v \<Rightarrow> None)"

text \<open>
  A successful submission in the words of the specification: a file is submitted to the
  configured endpoint and the answer is a 2xx response with a valid JSON body.
\<close>

fun success_2xx_json :: "post_outcome \<Rightarrow> bool" where
  "success_2xx_json (Raised e) = False"
| "success_2xx_json (Returned r) =
     (200 \<le> status_code r \<and> status_code r < 300 \<and>
      (case json_body r of Inl e \<Rightarrow> False | Inr j \<Rightarrow> True))"

definition successfully_submitted :: "run_input \<Rightarrow> bool" where
  "successfully_submitted inp =
     (configured (MAKE_WEBHOOK_URL inp) \<and> uploaded inp \<noteq> None \<and>
      success_2xx_json (endpoint inp))"

text \<open>
  The variant that differs in two points: the status may be any that is not an error
  status, and the JSON body must be non-empty (truthy), as \<open>if results:\<close> demands.
\<close>

definition answered_nonempty :: "run_input \<Rightarrow> bool" where
  "answered_nonempty inp =
     (configured (MAKE_WEBHOOK_URL inp) \<and> uploaded inp \<noteq> None \<and>
      (case answered (endpoint inp) of None \<Rightarrow> False | Some j \<Rightarrow> truthy j))"

text \<open>
  The name of the uploaded file of the most recent run that satisfies \<open>P\<close>, if there is
  one. The list is in the order of the runs.
\<close>

fun most_recent :: "(run_input \<Rightarrow> bool) \<Rightarrow> run_input list \<Rightarrow> string option" where
  "most_recent P [] = None"
| "most_recent P (inp # inps) =
     (case most_recent P inps of
        Some n \<Rightarrow> Some n
      | None \<Rightarrow> if P inp then map_option name (uploaded inp) else None)"

text \<open>
  The accessor of line 80 can read \<open>data\<close>: the body is an object whose \<open>data\<close> field is
  absent or is itself an object. On any other truthy body the accessor raises.
\<close>

fun data_readable :: "json \<Rightarrow> bool" where
  "data_readable (JObj kvs) = (data_items kvs \<noteq> None)"
| "data_readable v = False"

text \<open>The answer of a run, if there is one and it is truthy, is one the accessor can read.\<close>

definition readable_answer :: "run_input \<Rightarrow> bool" where
  "readable_answer inp =
     (case answered (endpoint inp) of
        None \<Rightarrow> True
      | Some j \<Rightarrow> if truthy j then data_readable j else True)"

section \<open>Example inputs\<close>

text \<open>A configured endpoint, two files and some answers of the endpoint.\<close>

definition hook :: string where
  "hook = ''https://hook.example/drf''"

definition race1 :: uploaded_file where
  "race1 = \<lparr>name = ''race1.drf'', getvalue = [0x52, 0x31], type = ''application/octet-stream''\<rparr>"

definition race2 :: uploaded_file where
  "race2 = \<lparr>name = ''race2.drf'', getvalue = [0x52, 0x32], type = ''application/octet-stream''\<rparr>"

text \<open>The double quote, and the success answer of the specification with its text.\<close>

definition dq :: string where
  "dq = [CHR 0x22]"

definition three_horses :: json where
  "three_horses =
     JObj [(''data'', JObj [(''python_summary'', JStr ''3 horses analyzed''),
                            (''lean'', JObj [(''a'', JInt 1)])])]"

definition three_horses_text :: string where
  "three_horses_text =
     ''{'' @ dq @ ''data'' @ dq @ '': {'' @ dq @ ''python_summary'' @ dq @ '': '' @ dq
       @ ''3 horses analyzed'' @ dq @ '', '' @ dq @ ''lean'' @ dq @ '': {'' @ dq @ ''a'' @ dq
       @ '':1}}}''"

definition ok_response :: "json \<Rightarrow> string \<Rightarrow> post_outcome" where
  "ok_response j t =
     Returned \<lparr>status_code = 200, http_error_text = [], json_body = Inr j, body_text = t\<rparr>"

text \<open>An answer with error status, and an answer without error status that is not JSON.\<close>

definition server_error :: post_outcome where
  "server_error =
     Returned \<lparr>status_code = 500,
               http_error_text =
                 ''500 Server Error: Internal Server Error for url: https://hook.example/drf'',
               json_body = Inl ''Expecting value: line 1 column 1 (char 0)'',
               body_text = ''Internal Server Error''\<rparr>"

definition html_page :: post_outcome where
  "html_page =
     Returned \<lparr>status_code = 200, http_error_text = [],
               json_body = Inl ''Expecting value: line 1 column 1 (char 0)'',
               body_text = ''<html>Accepted</html>''\<rparr>"

text \<open>
  An answer with status 300 (Multiple Choices), which is neither 2xx nor an error status,
  carrying the JSON body of the success answer.
\<close>

definition multiple_choices :: post_outcome where
  "multiple_choices =
     Returned \<lparr>status_code = 300, http_error_text = [], json_body = Inr three_horses,
               body_text = three_horses_text\<rparr>"

text \<open>
  In the examples every formatted summary is a \<open>str\<close>, so Python's \<open>str()\<close> of other values
  is never consulted there; the examples pass this function for it.
\<close>

definition str_unused :: "json \<Rightarrow> string" where
  "str_unused v = []"

text \<open>Answers that lack the recognised shape: no \<open>data\<close> at all, and \<open>data\<close> without summary.\<close>

definition status_done :: json where
  "status_done = JObj [(''status'', JStr ''done'')]"

definition status_done_text :: string where
  "status_done_text = ''{'' @ dq @ ''status'' @ dq @ '': '' @ dq @ ''done'' @ dq @ ''}''"

definition lean_only :: json where
  "lean_only = JObj [(''data'', JObj [(''lean'', JArr [])])]"

definition lean_only_text :: string where
  "lean_only_text = ''{'' @ dq @ ''data'' @ dq @ '': {'' @ dq @ ''lean'' @ dq @ '': []}}''"

text \<open>
  A session of four script runs: a failed upload of \<open>race1.drf\<close>, its successful retry, a
  prompt sent while the file is still in the uploader, and a failed upload of \<open>race2.drf\<close>.
\<close>

definition session_example :: "run_input list" where
  "session_example =
     [\<lparr>MAKE_WEBHOOK_URL = Some hook, uploaded = Some race1, endpoint = server_error,
       prompt = None\<rparr>,
      \<lparr>MAKE_WEBHOOK_URL = Some hook, uploaded = Some race1,
       endpoint = ok_response three_horses three_horses_text, prompt = None\<rparr>,
      \<lparr>MAKE_WEBHOOK_URL = Some hook, uploaded = Some race1, endpoint = server_error,
       prompt = Some ''How many favorites won?''\<rparr>,
      \<lparr>MAKE_WEBHOOK_URL = Some hook, uploaded = Some race2,
       endpoint = Raised ''Connection refused'', prompt = None\<rparr>]"

text \<open>
  Two single runs in a fresh session: \<open>race1.drf\<close> answered with status 200 and the empty
  object, and \<open>race1.drf\<close> answered with status 300.
\<close>

definition empty_answer_run :: run_input where
  "empty_answer_run =
     \<lparr>MAKE_WEBHOOK_URL = Some hook, uploaded = Some race1,
      endpoint = ok_response (JObj []) ''{}'', prompt = None\<rparr>"

definition multiple_choices_run :: run_input where
  "multiple_choices_run =
     \<lparr>MAKE_WEBHOOK_URL = Some hook, uploaded = Some race1, endpoint = multiple_choices,
      prompt = None\<rparr>"

section \<open>Facts about the blocks of the script\<close>

lemma run_analysis_answered:
  assumes "u \<noteq> []" and "answered outcome = Some j"
  shows "run_analysis (Some u) outcome f = ([HttpPost u (file_part f)], Inr j)"
proof (cases outcome)
  case (Raised e)
  with assms show ?thesis by simp
next
  case (Returned r)
  with assms show ?thesis
    by (simp add: run_analysis_def file_part_def split: option.splits sum.splits)
qed

lemma run_analysis_unconfigured:
  "\<not> configured url \<Longrightarrow> run_analysis url outcome f = ([StError not_configured_text], Inr JNull)"
  by (cases url) (simp_all add: run_analysis_def)

lemma run_analysis_posts:
  "u \<noteq> [] \<Longrightarrow> outbound_calls (fst (run_analysis (Some u) outcome f)) = [HttpPost u (file_part f)]"
  by (simp add: run_analysis_def outbound_calls_def file_part_def report_failure_def Let_def
      split: post_outcome.splits option.splits sum.splits)

lemma run_analysis_failure:
  "error_outcome outcome \<Longrightarrow> snd (run_analysis url outcome f) = Inr JNull \<or>
     snd (run_analysis url outcome f) = Inl (UnboundLocalError ''response'')"
  by (cases outcome)
    (auto simp add: run_analysis_def report_failure_def raise_for_status_def
      split: option.splits)

lemma data_get_readable:
  assumes "data_items kvs = Some d"
  shows "data_get (JObj kvs) k dflt = Inr (case map_of d k of None \<Rightarrow> dflt | Some v \<Rightarrow> v)"
  using assms by (auto simp add: data_get_def split: option.splits json.splits)

lemma show_results_readable:
  assumes "data_items kvs = Some d"
  shows "show_results str_of f (JObj kvs) s =
     (s\<lparr>messages := messages s @
          [\<lparr>role = Assistant,
            content = Text (summary_message (format_value str_of
              (case map_of d ''python_summary'' of None \<Rightarrow> no_summary | Some v \<Rightarrow> v)))\<rparr>],
        last_processed_file := Some (name f)\<rparr>,
      [StWrite lean_intro,
       StJson (case map_of d ''lean'' of None \<Rightarrow> no_lean | Some v \<Rightarrow> v), StRerun],
      Rerun)"
  by (simp add: show_results_def data_get_readable [OF assms] append_message_def)

lemma upload_handler_success:
  assumes "u \<noteq> []" and "last_processed_file s \<noteq> Some (name f)"
    and "answered outcome = Some (JObj kvs)" and "kvs \<noteq> []" and "data_items kvs = Some d"
  shows "upload_handler str_of (Some u) outcome (Some f) s =
     (s\<lparr>messages := messages s @
          [\<lparr>role = Assistant,
            content = Text (summary_message (format_value str_of
              (case map_of d ''python_summary'' of None \<Rightarrow> no_summary | Some v \<Rightarrow> v)))\<rparr>],
        last_processed_file := Some (name f)\<rparr>,
      [StSpinner (spinner_text (name f)), HttpPost u (file_part f), StWrite lean_intro,
       StJson (case map_of d ''lean'' of None \<Rightarrow> no_lean | Some v \<Rightarrow> v), StRerun],
      Rerun)"
  using assms(2,4)
  by (simp add: upload_handler_def run_analysis_answered [OF assms(1,3)]
      show_results_readable [OF assms(5)])

lemma upload_handler_skip:
  "last_processed_file s = Some (name f) \<Longrightarrow>
     upload_handler str_of url outcome (Some f) s = (s, [], Continue)"
  by (simp add: upload_handler_def)

lemma show_results_no_call:
  "outbound_calls (fst (snd (show_results str_of f results s))) = []"
  by (simp add: show_results_def outbound_calls_def Let_def split: sum.splits)

lemma show_results_last:
  "last_processed_file (fst (show_results str_of f results s)) = last_processed_file s \<or>
   last_processed_file (fst (show_results str_of f results s)) = Some (name f)"
  by (simp add: show_results_def append_message_def Let_def split: sum.splits)

lemma upload_handler_calls:
  assumes "u \<noteq> []" and "last_processed_file s \<noteq> Some (name f)"
  shows "outbound_calls (fst (snd (upload_handler str_of (Some u) outcome (Some f) s))) =
     [HttpPost u (file_part f)]"
proof -
  have ra: "filter is_post (fst (run_analysis (Some u) outcome f)) = [HttpPost u (file_part f)]"
    using run_analysis_posts [OF assms(1), of outcome f] by (simp add: outbound_calls_def)
  have sr: "filter is_post (fst (snd (show_results str_of f results s))) = []" for results
    using show_results_no_call [of str_of f results s] by (simp add: outbound_calls_def)
  show ?thesis
    using assms(2) ra sr
    by (simp add: upload_handler_def outbound_calls_def Let_def split: sum.splits prod.splits)
       (metis fst_conv snd_conv)
qed

lemma upload_handler_last:
  "last_processed_file (fst (upload_handler str_of url outcome (Some f) s)) = last_processed_file s \<or>
   last_processed_file (fst (upload_handler str_of url outcome (Some f) s)) = Some (name f)"
  using show_results_last [of str_of f _ s]
  by (simp add: upload_handler_def Let_def split: sum.splits prod.splits) (metis fst_conv)

lemma upload_handler_failure:
  assumes "error_outcome outcome"
  shows "fst (upload_handler str_of url outcome up s) = s"
proof (cases up)
  case None
  then show ?thesis by (simp add: upload_handler_def)
next
  case (Some f)
  from run_analysis_failure [OF assms, of url f] show ?thesis
    by (auto simp add: upload_handler_def Some Let_def)
qed

lemma readable_cases:
  assumes "truthy j" and "data_readable j"
  obtains kvs d where "j = JObj kvs" and "kvs \<noteq> []" and "data_items kvs = Some d"
  using assms by (cases j) auto

lemma run_analysis_not_answered:
  assumes "answered outcome = None"
  shows "snd (run_analysis url outcome f) = Inr JNull \<or>
     snd (run_analysis url outcome f) = Inl (UnboundLocalError ''response'')"
proof (cases outcome)
  case (Raised e)
  then show ?thesis by (simp add: run_analysis_def split: option.splits)
next
  case (Returned r)
  with assms show ?thesis
    by (auto simp add: run_analysis_def report_failure_def split: option.splits sum.splits)
qed

lemma show_results_unreadable:
  assumes "\<not> data_readable j"
  shows "fst (show_results str_of f j s) = s"
proof (cases j)
  case (JObj kvs)
  with assms have "data_items kvs = None" by simp
  then have "data_get (JObj kvs) k dflt = Inl (AttributeError
      (type_name (case map_of kvs ''data'' of Some v \<Rightarrow> v | None \<Rightarrow> JNull)) ''get'')" for k dflt
    by (auto simp add: data_get_def split: option.splits json.splits)
  then show ?thesis by (simp add: show_results_def JObj)
qed (simp_all add: show_results_def data_get_def)

lemma upload_handler_last_eq:
  "last_processed_file (fst (upload_handler str_of url outcome up s)) =
     (if configured url \<and> up \<noteq> None \<and>
         (case answered outcome of
            None \<Rightarrow> False
          | Some j \<Rightarrow> truthy j \<and> data_readable j)
      then map_option name up else last_processed_file s)"
proof (cases up)
  case None
  then show ?thesis by (simp add: upload_handler_def)
next
  case (Some f)
  show ?thesis
  proof (cases "last_processed_file s = Some (name f)")
    case True
    then show ?thesis by (simp add: Some upload_handler_skip)
  next
    case fresh: False
    show ?thesis
    proof (cases "configured url")
      case False
      then show ?thesis
        by (simp add: Some upload_handler_def run_analysis_unconfigured)
    next
      case True
      then obtain u where u: "url = Some u" "u \<noteq> []" by (cases url) auto
      show ?thesis
      proof (cases "answered outcome")
        case None
        from run_analysis_not_answered [OF None, of url f] show ?thesis
          by (auto simp add: Some None upload_handler_def Let_def)
      next
        case (Some j)
        note ans = Some
        show ?thesis
        proof (cases "truthy j \<and> data_readable j")
          case True
          then obtain kvs d where j: "j = JObj kvs" "kvs \<noteq> []" "data_items kvs = Some d"
            by (auto elim: readable_cases)
          from upload_handler_success [OF u(2) fresh ans [unfolded j(1)] j(2,3), of str_of]
          show ?thesis using True \<open>configured url\<close> by (simp add: \<open>up = Some f\<close> u(1) ans)
        next
          case False
          have "fst (upload_handler str_of url outcome (Some f) s) = s"
            using fresh False show_results_unreadable [of j str_of f s]
            by (cases "truthy j")
              (auto simp add: upload_handler_def u(1) run_analysis_answered [OF u(2) ans] Let_def
                split: prod.splits)
          then show ?thesis using False by (auto simp add: \<open>up = Some f\<close> ans)
        qed
      qed
    qed
  qed
qed

lemma chat_handler_last:
  "last_processed_file (fst (chat_handler p s)) = last_processed_file s"
  by (simp add: chat_handler_def append_message_def split: option.splits)

lemma script_run_last:
  assumes "readable_answer inp"
  shows "last_processed_file (fst (script_run str_of inp store)) =
     (if answered_nonempty inp then map_option name (uploaded inp) else stored_last store)"
proof -
  have init: "last_processed_file (initialize store) = stored_last store"
    by (cases store) (simp_all add: initial_state_def)
  have "last_processed_file (fst (script_run str_of inp store)) =
      last_processed_file (fst (upload_handler str_of (MAKE_WEBHOOK_URL inp) (endpoint inp)
        (uploaded inp) (initialize store)))"
    using chat_handler_last [of "prompt inp"]
    by (simp add: script_run_def Let_def split: prod.splits control.splits) (metis fst_conv)
  then show ?thesis
    using assms
    by (auto simp add: upload_handler_last_eq init answered_nonempty_def readable_answer_def
        split: option.splits if_splits)
qed

lemma run_all_last:
  assumes "\<forall>inp \<in> set inps. readable_answer inp"
  shows "stored_last (run_all str_of store inps) =
     (case most_recent answered_nonempty inps of None \<Rightarrow> stored_last store | Some n \<Rightarrow> Some n)"
  using assms
proof (induction inps arbitrary: store)
  case Nil
  then show ?case by simp
next
  case (Cons inp inps)
  then have step: "readable_answer inp" and rest: "\<forall>i \<in> set inps. readable_answer i"
    by simp_all
  show ?case
    by (auto simp add: Cons.IH [OF rest] script_run_last [OF step] answered_nonempty_def
        split: option.splits)
qed

section \<open>The claims\<close>

text \<open>
  Claim C1 at the answer \<open>{"data": {"python_summary": "3 horses analyzed", "lean": {"a":1}}}\<close>
  with status 200, for the file \<open>race1.drf\<close> in a fresh session. The handler appends the
  summary message and sets \<open>last_processed_file\<close>; the lean payload \<open>{"a":1}\<close> is passed to
  \<open>st.json\<close> right before \<open>st.rerun\<close> and is not appended to the log: afterwards the log
  holds the greeting and the summary only, and no message has the payload as its content.
\<close>

theorem lean_payload_not_logged:
  "upload_handler str_unused (Some hook) (ok_response three_horses three_horses_text) (Some race1)
     initial_state =
     (\<lparr>messages =
          [greeting,
           \<lparr>role = Assistant,
            content = Text (check_mark @ '' Analysis Complete! 3 horses analyzed.'')\<rparr>],
        last_processed_file = Some ''race1.drf''\<rparr>,
      [StSpinner ''Processing race1.drf... This may take a moment.'',
       HttpPost hook [(''file'', (''race1.drf'', [0x52, 0x31], ''application/octet-stream''))],
       StWrite lean_intro, StJson (JObj [(''a'', JInt 1)]), StRerun],
      Rerun)
   \<and> Structured (JObj [(''a'', JInt 1)]) \<notin>
       set (map content (messages (fst (upload_handler str_unused (Some hook)
         (ok_response three_horses three_horses_text) (Some race1) initial_state))))"
  by (simp add: upload_handler_def run_analysis_def show_results_def data_get_def
      raise_for_status_def append_message_def hook_def ok_response_def three_horses_def race1_def
      initial_state_def greeting_def summary_message_def format_value_def no_summary_def
      no_lean_def spinner_text_def Let_def)

text \<open>
  Claim C2, as amended. A submission that ends in a transport failure (\<open>requests.post\<close>
  raised) or in an error status, 400 to 599, made its outbound call, appends nothing to
  the message log and leaves \<open>last_processed_file\<close> unchanged; submitting the same file
  again makes a new outbound call, whatever the endpoint answers then.
\<close>

theorem failed_submission_keeps_state:
  assumes "error_outcome outcome" and "u \<noteq> []"
    and "last_processed_file s \<noteq> Some (name f)"
  shows "outbound_calls (fst (snd (upload_handler str_of (Some u) outcome (Some f) s))) =
       [HttpPost u (file_part f)]
     \<and> messages (fst (upload_handler str_of (Some u) outcome (Some f) s)) = messages s
     \<and> last_processed_file (fst (upload_handler str_of (Some u) outcome (Some f) s)) =
       last_processed_file s
     \<and> outbound_calls (fst (snd (upload_handler str_of (Some u) again (Some f)
         (fst (upload_handler str_of (Some u) outcome (Some f) s))))) =
       [HttpPost u (file_part f)]"
proof -
  have same: "fst (upload_handler str_of (Some u) outcome (Some f) s) = s"
    using assms(1) by (rule upload_handler_failure)
  show ?thesis
    by (simp add: same upload_handler_calls [OF assms(2,3)])
qed

text \<open>The amended claim C2 at a fresh session: connection refused, then a retry of \<open>race1.drf\<close>.\<close>

theorem failed_submission_keeps_state_witness:
  "outbound_calls (fst (snd (upload_handler str_unused (Some hook) (Raised ''Connection refused'')
       (Some race1) initial_state))) = [HttpPost hook (file_part race1)]
   \<and> messages (fst (upload_handler str_unused (Some hook) (Raised ''Connection refused'')
       (Some race1) initial_state)) = [greeting]
   \<and> last_processed_file (fst (upload_handler str_unused (Some hook)
       (Raised ''Connection refused'') (Some race1) initial_state)) = None
   \<and> outbound_calls (fst (snd (upload_handler str_unused (Some hook)
       (ok_response three_horses three_horses_text) (Some race1)
         (fst (upload_handler str_unused (Some hook) (Raised ''Connection refused'')
           (Some race1) initial_state))))) = [HttpPost hook (file_part race1)]"
  using failed_submission_keeps_state [of "Raised ''Connection refused''" hook initial_state
      race1 str_unused "ok_response three_horses three_horses_text"]
  by (simp add: hook_def initial_state_def race1_def)

text \<open>
  Claim C2 as stated fails. The answer with status 300 is not 2xx, yet the library does
  not raise for it: the handler takes the success path, appends the summary message and
  sets \<open>last_processed_file\<close>.
\<close>

theorem non_2xx_answer_recorded:
  "transport_failure multiple_choices
   \<and> messages (fst (upload_handler str_unused (Some hook) multiple_choices (Some race1)
       initial_state)) =
     [greeting,
      \<lparr>role = Assistant,
       content = Text (check_mark @ '' Analysis Complete! 3 horses analyzed.'')\<rparr>]
   \<and> last_processed_file (fst (upload_handler str_unused (Some hook) multiple_choices
       (Some race1) initial_state)) = Some ''race1.drf''"
  by (simp add: upload_handler_def run_analysis_def show_results_def data_get_def
      raise_for_status_def append_message_def hook_def multiple_choices_def three_horses_def
      race1_def initial_state_def summary_message_def format_value_def no_summary_def
      no_lean_def Let_def)

text \<open>
  Claim C3 at the failing input. With a configured endpoint, when \<open>requests.post\<close> raises
  before a response exists, \<open>run_analysis\<close> makes the call, reports the error detail and
  then raises UnboundLocalError for \<open>response\<close>: it does not return \<open>None\<close>.
\<close>

theorem run_analysis_post_raised:
  "run_analysis (Some (c # u)) (Raised e) f =
     ([HttpPost (c # u) (file_part f), StError (contact_error_text e)],
      Inl (UnboundLocalError ''response''))"
  by (simp add: run_analysis_def file_part_def)

text \<open>
  Claim C4, as amended. When the answer has no error status and its JSON body is a
  non-empty object whose \<open>data\<close> field is absent or is itself an object, the submission
  completes without an error report; an absent \<open>python_summary\<close> is replaced by
  "No summary available." in the summary message and an absent \<open>lean\<close> by
  "No lean data found." in the detail display.
\<close>

theorem malformed_response_placeholders:
  assumes "u \<noteq> []" and "last_processed_file s \<noteq> Some (name f)"
    and "answered outcome = Some (JObj kvs)" and "kvs \<noteq> []" and "data_items kvs = Some d"
  shows "upload_handler str_of (Some u) outcome (Some f) s =
     (s\<lparr>messages := messages s @
          [\<lparr>role = Assistant,
            content = Text (check_mark @ '' Analysis Complete! '' @
              format_value str_of
                (case map_of d ''python_summary'' of
                   None \<Rightarrow> JStr ''No summary available.'' | Some v \<Rightarrow> v) @ ''.'')\<rparr>],
        last_processed_file := Some (name f)\<rparr>,
      [StSpinner (spinner_text (name f)), HttpPost u (file_part f), StWrite lean_intro,
       StJson (case map_of d ''lean'' of None \<Rightarrow> JStr ''No lean data found.'' | Some v \<Rightarrow> v),
       StRerun],
      Rerun)"
  using upload_handler_success [OF assms, of str_of]
  unfolding summary_message_def no_summary_def no_lean_def by simp

text \<open>The amended claim C4 for the answer \<open>{"status": "done"}\<close>, which has no \<open>data\<close>.\<close>

theorem malformed_response_placeholders_witness:
  "upload_handler str_unused (Some hook) (ok_response status_done status_done_text)
     (Some race1) initial_state =
     (\<lparr>messages =
          [greeting,
           \<lparr>role = Assistant,
            content = Text (check_mark @ '' Analysis Complete! No summary available..'')\<rparr>],
        last_processed_file = Some ''race1.drf''\<rparr>,
      [StSpinner (spinner_text ''race1.drf''), HttpPost hook (file_part race1),
       StWrite lean_intro, StJson (JStr ''No lean data found.''), StRerun],
      Rerun)"
  using malformed_response_placeholders [of hook initial_state race1
      "ok_response status_done status_done_text" "[(''status'', JStr ''done'')]" "[]"
      str_unused]
  by (simp add: hook_def initial_state_def race1_def ok_response_def status_done_def
      raise_for_status_def format_value_def)

text \<open>
  Claim C4 as stated fails. For the empty object the handler shows nothing at all, no
  placeholder either; for a body that is not valid JSON it reports an error the way it
  does for a transport failure. In both runs the message log stays as it was.
\<close>

theorem malformed_response_counterexample:
  "upload_handler str_unused (Some hook) (ok_response (JObj []) ''{}'') (Some race1) initial_state =
     (initial_state,
      [StSpinner (spinner_text ''race1.drf''), HttpPost hook (file_part race1)], Continue)
   \<and> upload_handler str_unused (Some hook) html_page (Some race1) initial_state =
     (initial_state,
      [StSpinner (spinner_text ''race1.drf''), HttpPost hook (file_part race1),
       StError (contact_error_text ''Expecting value: line 1 column 1 (char 0)''),
       StError (response_body_text ''<html>Accepted</html>'')], Continue)"
  by (simp add: upload_handler_def run_analysis_def report_failure_def raise_for_status_def
      hook_def ok_response_def html_page_def race1_def file_part_def initial_state_def Let_def)

text \<open>
  Claim C5, as amended. When the submission of a file is answered, without error status,
  with a non-empty JSON object whose \<open>data\<close> field is absent or is itself an object,
  submitting a second file with the same name right after it makes no request and appends
  no message, since the name equals \<open>last_processed_file\<close>: the two submissions make
  exactly one outbound call.
\<close>

theorem duplicate_after_success_one_call:
  assumes "u \<noteq> []" and "last_processed_file s \<noteq> Some (name f)"
    and "answered outcome = Some (JObj kvs)" and "kvs \<noteq> []" and "data_items kvs = Some d"
    and "name g = name f"
  shows "outbound_calls
       (fst (snd (upload_handler str_of (Some u) outcome (Some f) s)) @
        fst (snd (upload_handler str_of url again (Some g)
          (fst (upload_handler str_of (Some u) outcome (Some f) s))))) =
       [HttpPost u [(''file'', (name f, getvalue f, type f))]]
     \<and> upload_handler str_of url again (Some g)
         (fst (upload_handler str_of (Some u) outcome (Some f) s)) =
       (fst (upload_handler str_of (Some u) outcome (Some f) s), [], Continue)"
proof -
  have first: "last_processed_file (fst (upload_handler str_of (Some u) outcome (Some f) s)) =
      Some (name g)"
    using upload_handler_success [OF assms(1,2,3,4,5), of str_of]
    by (simp add: assms(6))
  show ?thesis
    using upload_handler_calls [OF assms(1,2), of str_of outcome]
    by (simp add: upload_handler_skip [OF first] outbound_calls_def file_part_def)
qed

text \<open>The amended claim C5 at a fresh session, for \<open>race1.drf\<close> submitted twice.\<close>

theorem duplicate_after_success_one_call_witness:
  "outbound_calls
       (fst (snd (upload_handler str_unused (Some hook)
          (ok_response three_horses three_horses_text) (Some race1) initial_state)) @
        fst (snd (upload_handler str_unused (Some hook) server_error (Some race1)
          (fst (upload_handler str_unused (Some hook)
             (ok_response three_horses three_horses_text) (Some race1) initial_state))))) =
       [HttpPost hook [(''file'', (name race1, getvalue race1, type race1))]]
     \<and> upload_handler str_unused (Some hook) server_error (Some race1)
         (fst (upload_handler str_unused (Some hook)
            (ok_response three_horses three_horses_text) (Some race1) initial_state)) =
       (fst (upload_handler str_unused (Some hook)
            (ok_response three_horses three_horses_text) (Some race1) initial_state),
        [], Continue)"
proof -
  have configured: "hook \<noteq> []"
    by (simp add: hook_def)
  have fresh: "last_processed_file initial_state \<noteq> Some (name race1)"
    by (simp add: initial_state_def)
  have answer: "answered (ok_response three_horses three_horses_text) =
      Some (JObj [(''data'', JObj [(''python_summary'', JStr ''3 horses analyzed''),
                                   (''lean'', JObj [(''a'', JInt 1)])])])"
    by (simp add: ok_response_def three_horses_def raise_for_status_def)
  have items: "data_items [(''data'', JObj [(''python_summary'', JStr ''3 horses analyzed''),
                                   (''lean'', JObj [(''a'', JInt 1)])])] =
      Some [(''python_summary'', JStr ''3 horses analyzed''), (''lean'', JObj [(''a'', JInt 1)])]"
    by simp
  show ?thesis
    by (rule duplicate_after_success_one_call [OF configured fresh answer _ items refl]) simp
qed

text \<open>
  Claim C5 as stated fails. When the first submission of \<open>race1.drf\<close> ends with an error
  status, the second submission of the same name makes a second outbound call; so it does
  when the first answer is the empty object with status 200.
\<close>

theorem duplicate_after_failure_two_calls:
  "outbound_calls
     (fst (snd (upload_handler str_unused (Some hook) server_error (Some race1) initial_state)) @
      fst (snd (upload_handler str_unused (Some hook)
        (ok_response three_horses three_horses_text) (Some race1)
        (fst (upload_handler str_unused (Some hook) server_error (Some race1) initial_state))))) =
     [HttpPost hook (file_part race1), HttpPost hook (file_part race1)]
   \<and> outbound_calls
     (fst (snd (upload_handler str_unused (Some hook) (ok_response (JObj []) ''{}'') (Some race1)
        initial_state)) @
      fst (snd (upload_handler str_unused (Some hook)
        (ok_response three_horses three_horses_text) (Some race1)
        (fst (upload_handler str_unused (Some hook) (ok_response (JObj []) ''{}'') (Some race1)
           initial_state))))) =
     [HttpPost hook (file_part race1), HttpPost hook (file_part race1)]"
  by (simp add: upload_handler_def run_analysis_def report_failure_def show_results_def
      data_get_def raise_for_status_def append_message_def outbound_calls_def file_part_def
      hook_def server_error_def ok_response_def three_horses_def race1_def initial_state_def
      Let_def)

text \<open>
  Claim C6. With a configured endpoint, in a state whose \<open>last_processed_file\<close> is neither
  of the two names (a fresh session, for one), submitting two files with distinct names
  makes exactly two outbound calls, whatever the endpoint answers; each call carries the
  single part \<open>file\<close> with the name, the bytes and the MIME type of its file.
\<close>

theorem distinct_names_two_calls:
  assumes "u \<noteq> []" and "name f \<noteq> name g"
    and "last_processed_file s \<noteq> Some (name f)" and "last_processed_file s \<noteq> Some (name g)"
  shows "outbound_calls
       (fst (snd (upload_handler str_of (Some u) outcome (Some f) s)) @
        fst (snd (upload_handler str_of (Some u) again (Some g)
          (fst (upload_handler str_of (Some u) outcome (Some f) s))))) =
       [HttpPost u [(''file'', (name f, getvalue f, type f))],
        HttpPost u [(''file'', (name g, getvalue g, type g))]]"
proof -
  have second: "last_processed_file (fst (upload_handler str_of (Some u) outcome (Some f) s)) \<noteq>
      Some (name g)"
    using upload_handler_last [of str_of "Some u" outcome f s] assms(2,4) by auto
  show ?thesis
    using upload_handler_calls [OF assms(1,3), of str_of outcome]
      upload_handler_calls [OF assms(1) second, of str_of again]
    by (simp add: outbound_calls_def file_part_def)
qed

text \<open>Claim C6 at a fresh session, for \<open>race1.drf\<close> and then \<open>race2.drf\<close>.\<close>

theorem distinct_names_two_calls_witness:
  "outbound_calls
       (fst (snd (upload_handler str_unused (Some hook) server_error (Some race1) initial_state)) @
        fst (snd (upload_handler str_unused (Some hook)
          (ok_response three_horses three_horses_text) (Some race2)
          (fst (upload_handler str_unused (Some hook) server_error (Some race1)
             initial_state))))) =
       [HttpPost hook [(''file'', (''race1.drf'', [0x52, 0x31], ''application/octet-stream''))],
        HttpPost hook [(''file'', (''race2.drf'', [0x52, 0x32], ''application/octet-stream''))]]"
  using distinct_names_two_calls [of hook race1 race2 initial_state str_unused server_error
      "ok_response three_horses three_horses_text"]
  by (simp add: hook_def initial_state_def race1_def race2_def)

text \<open>
  Claim C7. When \<open>MAKE_WEBHOOK_URL\<close> is absent (or empty), \<open>run_analysis\<close> makes no
  outbound call, reports exactly one error and returns \<open>None\<close>; the upload handler, for a
  file it has not processed yet, leaves the session state as it was.
\<close>

theorem unconfigured_no_call:
  assumes "\<not> configured url"
  shows "run_analysis url outcome f = ([StError not_configured_text], Inr JNull)
     \<and> outbound_calls (fst (run_analysis url outcome f)) = []
     \<and> length (error_reports (fst (run_analysis url outcome f))) = 1
     \<and> (last_processed_file s \<noteq> Some (name f) \<longrightarrow>
          upload_handler str_of url outcome (Some f) s =
            (s, [StSpinner (spinner_text (name f)), StError not_configured_text], Continue))"
  by (simp add: run_analysis_unconfigured [OF assms] outbound_calls_def error_reports_def
      upload_handler_def)

text \<open>Claim C7 for an absent secret, at a fresh session.\<close>

theorem unconfigured_no_call_witness:
  "run_analysis None (ok_response three_horses three_horses_text) race1 =
       ([StError not_configured_text], Inr JNull)
     \<and> outbound_calls (fst (run_analysis None (ok_response three_horses three_horses_text)
          race1)) = []
     \<and> length (error_reports (fst (run_analysis None
          (ok_response three_horses three_horses_text) race1))) = 1
     \<and> upload_handler str_unused None (ok_response three_horses three_horses_text) (Some race1)
          initial_state =
            (initial_state,
             [StSpinner (spinner_text ''race1.drf''), StError not_configured_text], Continue)"
  using unconfigured_no_call [of None "ok_response three_horses three_horses_text" race1
      initial_state str_unused]
  by (simp add: initial_state_def race1_def outbound_calls_def error_reports_def)

text \<open>
  Claim C8. When the answer has no error status and its JSON body has a \<open>data\<close> object
  without the field \<open>python_summary\<close>, the handler does not fail: it appends the summary
  message built from the placeholder "No summary available.".
\<close>

theorem missing_summary_placeholder:
  assumes "u \<noteq> []" and "last_processed_file s \<noteq> Some (name f)"
    and "answered outcome = Some (JObj kvs)"
    and "map_of kvs ''data'' = Some (JObj d)" and "map_of d ''python_summary'' = None"
  shows "messages (fst (upload_handler str_of (Some u) outcome (Some f) s)) =
       messages s @
         [\<lparr>role = Assistant,
           content = Text (check_mark @ '' Analysis Complete! No summary available..'')\<rparr>]
     \<and> snd (snd (upload_handler str_of (Some u) outcome (Some f) s)) = Rerun"
proof -
  from assms(4) have ne: "kvs \<noteq> []" by auto
  from assms(4) have d: "data_items kvs = Some d" by simp
  show ?thesis
    using upload_handler_success [OF assms(1,2,3) ne d, of str_of]
    by (simp add: assms(5) summary_message_def no_summary_def format_value_def)
qed

text \<open>Claim C8 for the answer \<open>{"data": {"lean": []}}\<close>, at a fresh session.\<close>

theorem missing_summary_placeholder_witness:
  "messages (fst (upload_handler str_unused (Some hook)
       (ok_response lean_only lean_only_text) (Some race1) initial_state)) =
       [greeting,
        \<lparr>role = Assistant,
          content = Text (check_mark @ '' Analysis Complete! No summary available..'')\<rparr>]
     \<and> snd (snd (upload_handler str_unused (Some hook)
       (ok_response lean_only lean_only_text) (Some race1) initial_state)) = Rerun"
  using missing_summary_placeholder [of hook initial_state race1
      "ok_response lean_only lean_only_text" "[(''data'', JObj [(''lean'', JArr [])])]"
      "[(''lean'', JArr [])]" str_unused]
  by (simp add: hook_def initial_state_def race1_def ok_response_def lean_only_def
      raise_for_status_def)

text \<open>
  Claim C9. For every text the chat input delivers (the widget never delivers an empty
  one) and every session state, the chat-input handler appends exactly two messages, the
  user's text and then the fixed assistant reply, and makes no outbound call.
\<close>

theorem submit_prompt_appends_two:
  assumes "t \<noteq> []"
  shows "chat_handler (Some t) s =
       (s\<lparr>messages := messages s @
           [\<lparr>role = User, content = Text t\<rparr>,
            \<lparr>role = Assistant,
             content = Text ''Follow-up questions are not yet implemented.''\<rparr>]\<rparr>,
        [StWrite t, StRerun], Rerun)
     \<and> outbound_calls (fst (snd (chat_handler (Some t) s))) = []"
  using assms
  by (simp add: chat_handler_def append_message_def not_implemented_def outbound_calls_def)

text \<open>Claim C9 at a fresh session, for the prompt "How many favorites won?".\<close>

theorem submit_prompt_appends_two_witness:
  "chat_handler (Some ''How many favorites won?'') initial_state =
       (\<lparr>messages =
           [greeting,
            \<lparr>role = User, content = Text ''How many favorites won?''\<rparr>,
            \<lparr>role = Assistant,
             content = Text ''Follow-up questions are not yet implemented.''\<rparr>],
         last_processed_file = None\<rparr>,
        [StWrite ''How many favorites won?'', StRerun], Rerun)
     \<and> outbound_calls (fst (snd (chat_handler (Some ''How many favorites won?'')
          initial_state))) = []"
  using submit_prompt_appends_two [of "''How many favorites won?''" initial_state]
  by (simp add: initial_state_def outbound_calls_def)

text \<open>
  Claim C10, as amended. After any sequence of script runs from a fresh session in which
  every truthy answer is one whose \<open>data\<close> the handler can read, \<open>last_processed_file\<close> is
  the name of the file of the most recent submission that the configured endpoint
  answered, without error status, with a non-empty valid JSON body, and is absent when
  there is none. One such script run assigns it the name of the uploaded file when the
  submission is answered that way and leaves it unchanged otherwise (a failed or an absent
  submission, or an empty answer; a skipped one already has that name); the chat-input
  handler never changes it.
\<close>

theorem last_processed_file_invariant:
  assumes "\<forall>i \<in> set inps. readable_answer i" and "readable_answer inp"
  shows "stored_last (run_all str_of None inps) = most_recent answered_nonempty inps
     \<and> stored_last (Some (fst (script_run str_of inp store))) =
         (if answered_nonempty inp then map_option name (uploaded inp) else stored_last store)
     \<and> last_processed_file (fst (chat_handler p s)) = last_processed_file s"
  by (simp add: run_all_last [OF assms(1)] script_run_last [OF assms(2)] chat_handler_last
      split: option.splits)

text \<open>
  The amended claim C10 on the example session: the retry of \<open>race1.drf\<close> was the last
  answered submission, and a run with an empty answer changes nothing.
\<close>

theorem last_processed_file_invariant_witness:
  "stored_last (run_all str_unused None session_example) = Some ''race1.drf''
   \<and> stored_last (Some (fst (script_run str_unused empty_answer_run None))) = None
   \<and> last_processed_file (fst (chat_handler (Some ''How many favorites won?'') initial_state)) =
       None"
proof -
  have all: "\<forall>i \<in> set session_example. readable_answer i"
    by (simp add: session_example_def readable_answer_def ok_response_def server_error_def
        three_horses_def raise_for_status_def)
  have one: "readable_answer empty_answer_run"
    by (simp add: empty_answer_run_def readable_answer_def ok_response_def raise_for_status_def)
  show ?thesis
    using last_processed_file_invariant [OF all one, of str_unused None
        "Some ''How many favorites won?''" initial_state]
    by (simp add: session_example_def empty_answer_run_def answered_nonempty_def ok_response_def
        server_error_def three_horses_def raise_for_status_def race1_def hook_def
        initial_state_def)
qed

text \<open>
  Claim C10 as stated fails. A submission answered with status 200 and the empty object is
  successful in the words of the specification (2xx with a valid JSON body), yet
  \<open>last_processed_file\<close> stays absent; a submission answered with status 300 is not, yet
  \<open>last_processed_file\<close> is set.
\<close>

theorem success_not_recorded:
  "most_recent successfully_submitted [empty_answer_run] = Some ''race1.drf''
   \<and> stored_last (run_all str_unused None [empty_answer_run]) = None
   \<and> most_recent successfully_submitted [multiple_choices_run] = None
   \<and> stored_last (run_all str_unused None [multiple_choices_run]) = Some ''race1.drf''"
  by (simp add: successfully_submitted_def empty_answer_run_def multiple_choices_run_def
      script_run_def upload_handler_def chat_handler_def run_analysis_def show_results_def
      data_get_def raise_for_status_def append_message_def hook_def ok_response_def
      multiple_choices_def three_horses_def race1_def initial_state_def Let_def)

end
